theory Spec2Isabelle
  imports Main
begin

section \<open>JavaScript values\<close>

text \<open>
  A JavaScript string is modelled as a \<^typ>\<open>string\<close>, one \<^typ>\<open>char\<close> per UTF-16 code unit
  below 256; every string literal of the sources lies in that range (\<open>CHR 0xC1\<close> is the
  capital A with acute accent, \<open>CHR 0xF3\<close> the o with acute accent, and so on).
  A value that may be \<open>undefined\<close> (or \<open>null\<close>) is an \<open>option\<close>.
\<close>

datatype exn = Error (message: string)

definition truthy :: "string option \<Rightarrow> bool" where
  \<comment> \<open>ToBoolean of a string that may be undefined: undefined and the empty string are falsy.\<close>
  "truthy v = (case v of None \<Rightarrow> False | Some str \<Rightarrow> str \<noteq> [])"

definition nullish :: "'a option \<Rightarrow> 'a option \<Rightarrow> 'a option" where
  \<comment> \<open>\<open>a ?? b\<close>\<close>
  "nullish a b = (case a of Some v \<Rightarrow> Some v | None \<Rightarrow> b)"

definition or_else :: "string option \<Rightarrow> string \<Rightarrow> string" where
  \<comment> \<open>\<open>a || b\<close> on strings\<close>
  "or_else a b = (case a of None \<Rightarrow> b | Some str \<Rightarrow> (if str = [] then b else str))"

definition to_str :: "string option \<Rightarrow> string" where
  \<comment> \<open>ToString, as applied by a template literal and by a computed property key:
      \<open>undefined\<close> becomes the text \<open>undefined\<close>.\<close>
  "to_str v = (case v of None \<Rightarrow> ''undefined'' | Some str \<Rightarrow> str)"

definition array_get :: "'a list \<Rightarrow> int \<Rightarrow> 'a option" where
  \<comment> \<open>\<open>xs[i]\<close> for an integer \<open>i\<close>: out of range reads give \<open>undefined\<close>.\<close>
  "array_get xs i = (if 0 \<le> i \<and> i < int (length xs) then Some (xs ! nat i) else None)"

definition is_white_space :: "char \<Rightarrow> bool" where
  \<comment> \<open>WhiteSpace and LineTerminator code units below 256: TAB, LF, VT, FF, CR, SP, NBSP.\<close>
  "is_white_space c = (c \<in> set [CHR 0x09, CHR 0x0A, CHR 0x0B, CHR 0x0C, CHR 0x0D, CHR 0x20, CHR 0xA0])"

definition trim :: "string \<Rightarrow> string" where
  \<comment> \<open>\<open>String.prototype.trim\<close>\<close>
  "trim str = rev (dropWhile is_white_space (rev (dropWhile is_white_space str)))"

text \<open>
  An object used as a dictionary: an association list with distinct keys, in property order.
  The keys the code uses are view instructions (or the text \<open>undefined\<close>), none of which is
  an array index, so property order is insertion order.
\<close>

type_synonym 'v js_object = "(string \<times> 'v) list"

definition obj_get :: "'v js_object \<Rightarrow> string \<Rightarrow> 'v option" where
  \<comment> \<open>\<open>obj[key]\<close>\<close>
  "obj_get obj k = map_of obj k"

definition Object_values :: "'v js_object \<Rightarrow> 'v list" where
  \<comment> \<open>\<open>Object.values(obj)\<close>\<close>
  "Object_values obj = map snd obj"

definition Object_keys :: "'v js_object \<Rightarrow> string list" where
  \<comment> \<open>\<open>Object.keys(obj)\<close>\<close>
  "Object_keys obj = map fst obj"

fun obj_set :: "string \<Rightarrow> 'v \<Rightarrow> 'v js_object \<Rightarrow> 'v js_object" where
  \<comment> \<open>\<open>{ ...obj, [k]: v }\<close>: an existing key keeps its position, a new key goes last.\<close>
  "obj_set k v [] = [(k, v)]"
| "obj_set k v ((k', v') # rest) =
     (if k' = k then (k, v) # rest else (k', v') # obj_set k v rest)"

section \<open>services/geminiService.ts: the provider response interpreter\<close>

text \<open>The part of the provider's response type that \<open>handleApiResponse\<close> reads.\<close>

record Blob =
  mimeType :: "string option"
  data :: "string option"

record Part =
  inlineData :: "Blob option"

record Content =
  parts :: "Part list option"

record Candidate =
  content :: "Content option"
  finishReason :: "string option"

record PromptFeedback =
  blockReason :: "string option"
  blockReasonMessage :: "string option"

record GenerateContentResponse =
  candidates :: "Candidate list option"
  promptFeedback :: "PromptFeedback option"
  response_text :: "string option"

definition find_imagePart :: "Candidate \<Rightarrow> Part option" where
  \<comment> \<open>\<open>candidate.content?.parts?.find(part => part.inlineData)\<close>\<close>
  "find_imagePart candidate =
     (case content candidate of
        None \<Rightarrow> None
      | Some c \<Rightarrow>
          (case parts c of
             None \<Rightarrow> None
           | Some ps \<Rightarrow> List.find (\<lambda>part. inlineData part \<noteq> None) ps))"

definition data_url :: "Blob \<Rightarrow> string" where
  \<comment> \<open>\<open>`data:${mimeType};base64,${data}`\<close>\<close>
  "data_url b = ''data:'' @ to_str (mimeType b) @ '';base64,'' @ to_str (data b)"

fun scan_candidates :: "Candidate list \<Rightarrow> string option" where
  \<comment> \<open>the \<open>for ... of\<close> loop: \<open>Some\<close> is its \<open>return\<close>, \<open>None\<close> is falling out of the loop\<close>
  "scan_candidates [] = None"
| "scan_candidates (candidate # rest) =
     (case find_imagePart candidate of
        None \<Rightarrow> scan_candidates rest
      | Some imagePart \<Rightarrow>
          (case inlineData imagePart of
             None \<Rightarrow> scan_candidates rest
           | Some b \<Rightarrow> Some (data_url b)))"

definition handleApiResponse :: "GenerateContentResponse \<Rightarrow> exn + string" where
  "handleApiResponse response =
     (let blockReason' = Option.bind (promptFeedback response) blockReason;
          blockReasonMessage' = Option.bind (promptFeedback response) blockReasonMessage
      in if truthy blockReason' then
           (let errorMessage = ''La solicitud fue bloqueada. Raz'' @ [CHR 0xF3] @ ''n: ''
                  @ to_str blockReason' @ ''. '' @ or_else blockReasonMessage' ''''
            in Inl (Error errorMessage))
         else
           (case scan_candidates (case candidates response of None \<Rightarrow> [] | Some cs \<Rightarrow> cs) of
              Some imageUrl \<Rightarrow> Inr imageUrl
            | None \<Rightarrow>
               (let finishReason' =
                      Option.bind (Option.bind (candidates response) (\<lambda>cs. array_get cs 0))
                        finishReason
                in if truthy finishReason' \<and> finishReason' \<noteq> Some ''STOP'' then
                     (let errorMessage = ''La generaci'' @ [CHR 0xF3] @ ''n de im'' @ [CHR 0xE1]
                            @ ''genes se detuvo inesperadamente. Raz'' @ [CHR 0xF3] @ ''n: ''
                            @ to_str finishReason'
                            @ ''. Esto a menudo se relaciona con la configuraci'' @ [CHR 0xF3]
                            @ ''n de seguridad.''
                      in Inl (Error errorMessage))
                   else
                     (let textFeedback = map_option trim (response_text response);
                          errorMessage =
                            ''El modelo de IA no devolvi'' @ [CHR 0xF3] @ '' una imagen. ''
                            @ (if truthy textFeedback
                               then ''El modelo respondi'' @ [CHR 0xF3] @ '' con texto: ''
                                    @ [CHR 0x22] @ to_str textFeedback @ [CHR 0x22]
                               else ''Esto puede ocurrir debido a los filtros de seguridad o si la ''
                                    @ ''solicitud es demasiado compleja. Por favor, intenta con una ''
                                    @ ''imagen diferente.'')
                      in Inl (Error errorMessage)))))"

text \<open>
  \<open>generateLogoOnBoxImage\<close> and \<open>generateAngleVariation\<close> build the request parts, await the
  provider and return \<open>handleApiResponse(response)\<close>. Building the parts or the provider
  call may throw; otherwise the provider answers with a response.
\<close>

datatype provider_reply = Threw exn | Responded GenerateContentResponse

fun generation_result :: "provider_reply \<Rightarrow> exn + string" where
  "generation_result (Threw e) = Inl e"
| "generation_result (Responded response) = handleApiResponse response"

section \<open>App: the session state and its handlers\<close>

record BoxItem =
  box_id :: string
  name :: string
  url :: string

datatype File = File (file_name: string)

type_synonym GeneratedImageHistory = "string js_object"

record AppState =
  selectedBox :: "BoxItem option"
  logoFile :: "File option"
  generatedImages :: GeneratedImageHistory
  currentAngleIndex :: int
  isLoading :: bool
  loadingMessage :: string
  error :: "string option"

definition ANGLE_INSTRUCTIONS :: "string list" where
  "ANGLE_INSTRUCTIONS =
     [''Vista Frontal'',
      ''Vista en '' @ [CHR 0xC1] @ ''ngulo'',
      ''Vista Superior'',
      ''Primer Plano del Logo'',
      ''En un Entorno de Lujo'']"

definition initial_state :: AppState where
  \<comment> \<open>the \<open>useState\<close> initial values\<close>
  "initial_state =
     \<lparr>selectedBox = None, logoFile = None, generatedImages = [], currentAngleIndex = 0,
      isLoading = False, loadingMessage = '''', error = None\<rparr>"

definition displayImageUrl :: "AppState \<Rightarrow> string option" where
  "displayImageUrl s =
     (let currentAngleInstruction = array_get ANGLE_INSTRUCTIONS (currentAngleIndex s)
      in nullish
           (nullish (obj_get (generatedImages s) (to_str currentAngleInstruction))
                    (array_get (Object_values (generatedImages s)) 0))
           (map_option url (selectedBox s)))"

definition availableAngleKeys :: "AppState \<Rightarrow> string list" where
  "availableAngleKeys s = Object_keys (generatedImages s)"

definition showsStartScreen :: "AppState \<Rightarrow> bool" where
  \<comment> \<open>the test \<open>!selectedBox || !logoFile\<close> of the render: when it holds the render returns the
      start screen, otherwise the main view, whose canvas is given \<open>handleAngleSelect\<close> and
      \<open>handleStartOver\<close>. It is the branch the render takes, not the time during which a
      screen can be clicked: the screen that is left stays mounted while its exit animation
      plays.\<close>
  "showsStartScreen s = (selectedBox s = None \<or> logoFile s = None)"

text \<open>
  A handler reads the state of the latest render (its closure is renewed whenever a value
  it depends on changes), and the state updates it makes before it suspends show together.
  An \<open>async\<close> handler runs up to its \<open>await\<close>, where it has issued a request, and is resumed
  when the request settles. \<open>Returned\<close> is a run that ends without reaching the \<open>await\<close>;
  \<open>Awaiting\<close> carries the state after the synchronous part, the request, and the local
  variables the rest of the handler needs.
\<close>

datatype request =
  GenerateLogoOnBoxImage BoxItem File
| GenerateAngleVariation string "string option"

datatype continuation =
  StartCont
| AngleCont int "string option"

datatype step =
  Returned AppState
| Awaiting AppState request continuation

fun state_of :: "step \<Rightarrow> AppState" where
  "state_of (Returned s) = s"
| "state_of (Awaiting s req k) = s"

fun issued :: "step \<Rightarrow> request option" where
  "issued (Returned s) = None"
| "issued (Awaiting s req k) = Some req"

definition handleStart_begin :: "BoxItem \<Rightarrow> File \<Rightarrow> AppState \<Rightarrow> step" where
  \<comment> \<open>\<open>handleStart\<close> up to \<open>await generateLogoOnBoxImage(box, logo)\<close>\<close>
  "handleStart_begin box logo s =
     Awaiting
       (s\<lparr>selectedBox := Some box, logoFile := Some logo, error := None, isLoading := True,
          loadingMessage := ''Colocando tu logo en la '' @ name box @ ''...''\<rparr>)
       (GenerateLogoOnBoxImage box logo)
       StartCont"

definition handleStartOver :: "AppState \<Rightarrow> AppState" where
  "handleStartOver s =
     s\<lparr>selectedBox := None, logoFile := None, generatedImages := [], currentAngleIndex := 0,
       isLoading := False, loadingMessage := '''', error := None\<rparr>"

definition handleAngleSelect :: "int \<Rightarrow> AppState \<Rightarrow> step" where
  \<comment> \<open>\<open>handleAngleSelect\<close> up to \<open>await generateAngleVariation(...)\<close>\<close>
  "handleAngleSelect newIndex s =
     (if isLoading s \<or> newIndex = currentAngleIndex s \<or> selectedBox s = None then Returned s
      else
        (let angleInstruction = array_get ANGLE_INSTRUCTIONS newIndex
         in if truthy (obj_get (generatedImages s) (to_str angleInstruction)) then
              Returned (s\<lparr>currentAngleIndex := newIndex\<rparr>)
            else
              (case array_get (Object_values (generatedImages s)) 0 of
                 None \<Rightarrow> Returned s
               | Some baseImageForAngleChange \<Rightarrow>
                   if baseImageForAngleChange = [] then Returned s
                   else
                     (let prevAngleIndex = currentAngleIndex s
                      in Awaiting
                           (s\<lparr>error := None, isLoading := True,
                              loadingMessage := ''Cambiando la vista a '' @ [CHR 0x22]
                                @ to_str angleInstruction @ [CHR 0x22] @ ''...'',
                              currentAngleIndex := newIndex\<rparr>)
                           (GenerateAngleVariation baseImageForAngleChange angleInstruction)
                           (AngleCont prevAngleIndex angleInstruction)))))"

text \<open>
  The rest of a handler, run on the state current when the request settles: the \<open>try\<close> body
  after the \<open>await\<close> on success (\<open>Inr\<close>), the \<open>catch\<close> block on failure (\<open>Inl\<close>), then
  \<open>finally\<close>. \<open>getFriendlyErrorMessage\<close> (lib/utils) is a parameter.
\<close>

fun resume :: "(exn \<Rightarrow> string \<Rightarrow> string) \<Rightarrow> continuation \<Rightarrow> exn + string \<Rightarrow> AppState \<Rightarrow> AppState" where
  "resume getFriendlyErrorMessage StartCont (Inr newImageUrl) s =
     (let initialAngle = array_get ANGLE_INSTRUCTIONS 0
      in s\<lparr>generatedImages := [(to_str initialAngle, newImageUrl)], currentAngleIndex := 0,
           isLoading := False, loadingMessage := ''''\<rparr>)"
| "resume getFriendlyErrorMessage StartCont (Inl err) s =
     s\<lparr>error := Some (getFriendlyErrorMessage err ''No se pudo generar la maqueta''),
       selectedBox := None, logoFile := None,
       isLoading := False, loadingMessage := ''''\<rparr>"
| "resume getFriendlyErrorMessage (AngleCont prevAngleIndex angleInstruction) (Inr newImageUrl) s =
     s\<lparr>generatedImages := obj_set (to_str angleInstruction) newImageUrl (generatedImages s),
       isLoading := False, loadingMessage := ''''\<rparr>"
| "resume getFriendlyErrorMessage (AngleCont prevAngleIndex angleInstruction) (Inl err) s =
     s\<lparr>error := Some (getFriendlyErrorMessage err ''No se pudo cambiar la vista''),
       currentAngleIndex := prevAngleIndex,
       isLoading := False, loadingMessage := ''''\<rparr>"

definition run :: "(exn \<Rightarrow> string \<Rightarrow> string) \<Rightarrow> step \<Rightarrow> exn + string \<Rightarrow> AppState" where
  \<comment> \<open>a handler run to its end, its request (if any) settling with the given outcome\<close>
  "run getFriendlyErrorMessage st outcome =
     (case st of Returned s \<Rightarrow> s | Awaiting s req k \<Rightarrow> resume getFriendlyErrorMessage k outcome s)"

definition handleStart :: "(exn \<Rightarrow> string \<Rightarrow> string) \<Rightarrow> BoxItem \<Rightarrow> File \<Rightarrow> exn + string \<Rightarrow> AppState \<Rightarrow> AppState" where
  "handleStart getFriendlyErrorMessage box logo outcome s =
     run getFriendlyErrorMessage (handleStart_begin box logo s) outcome"

text \<open>
  The operations a session goes through: the three handlers, and a request settling
  (the handler that issued it being resumed with the outcome).
\<close>

datatype event =
  Start BoxItem File
| SelectView int
| StartOver
| Settled continuation "exn + string"

fun apply_event :: "(exn \<Rightarrow> string \<Rightarrow> string) \<Rightarrow> event \<Rightarrow> AppState \<Rightarrow> AppState" where
  "apply_event getFriendlyErrorMessage (Start box logo) s = state_of (handleStart_begin box logo s)"
| "apply_event getFriendlyErrorMessage (SelectView newIndex) s = state_of (handleAngleSelect newIndex s)"
| "apply_event getFriendlyErrorMessage StartOver s = handleStartOver s"
| "apply_event getFriendlyErrorMessage (Settled k outcome) s = resume getFriendlyErrorMessage k outcome s"

fun run_events :: "(exn \<Rightarrow> string \<Rightarrow> string) \<Rightarrow> event list \<Rightarrow> AppState \<Rightarrow> AppState" where
  \<comment> \<open>a session: operations in any order, any continuation settling at any time, which covers
      every interleaving of the requests in flight\<close>
  "run_events getFriendlyErrorMessage [] s = s"
| "run_events getFriendlyErrorMessage (e # es) s =
     run_events getFriendlyErrorMessage es (apply_event getFriendlyErrorMessage e s)"

fun settles_with_image :: "event \<Rightarrow> bool" where
  \<comment> \<open>a request that settles with success settles with a non-empty string\<close>
  "settles_with_image (Settled k (Inr newImageUrl)) = (newImageUrl \<noteq> [])"
| "settles_with_image e = True"

definition view_key :: "int \<Rightarrow> string" where
  \<comment> \<open>the cache key of the view with the given index: \<open>ANGLE_INSTRUCTIONS[index]\<close> as a
      property key\<close>
  "view_key index = to_str (array_get ANGLE_INSTRUCTIONS index)"

definition overwritten :: "string \<Rightarrow> AppState \<Rightarrow> AppState \<Rightarrow> bool" where
  \<comment> \<open>the cache entry of a key is overwritten: it has an image before, and another image after\<close>
  "overwritten k s s' =
     (case obj_get (generatedImages s) k of
        None \<Rightarrow> False
      | Some v \<Rightarrow> (case obj_get (generatedImages s') k of None \<Rightarrow> False | Some v' \<Rightarrow> v' \<noteq> v))"

definition removed :: "string \<Rightarrow> AppState \<Rightarrow> AppState \<Rightarrow> bool" where
  \<comment> \<open>the cache entry of a key is removed: it has an image before, and none after\<close>
  "removed k s s' =
     (obj_get (generatedImages s) k \<noteq> None \<and> obj_get (generatedImages s') k = None)"

definition session_invariant :: "AppState \<Rightarrow> bool" where
  \<comment> \<open>box and logo are selected together, a loading session has both, and the cache has one
      entry per key\<close>
  "session_invariant s =
     ((selectedBox s = None) = (logoFile s = None)
      \<and> (if isLoading s then selectedBox s \<noteq> None else True)
      \<and> distinct (Object_keys (generatedImages s)))"

definition images_nonempty :: "AppState \<Rightarrow> bool" where
  \<comment> \<open>every cached image is a non-empty string\<close>
  "images_nonempty s = list_all (\<lambda>(k, v). v \<noteq> []) (generatedImages s)"

section \<open>The interpreter as the specification words it\<close>

datatype interpreter_error =
  BlockedRequestError string "string option"
| AbnormalCompletionError string
| NoImageProducedError "string option"

definition candidate_parts :: "Candidate \<Rightarrow> Part list" where
  "candidate_parts c =
     (case content c of None \<Rightarrow> [] | Some ct \<Rightarrow> (case parts ct of None \<Rightarrow> [] | Some ps \<Rightarrow> ps))"

definition first_inline_image :: "Candidate \<Rightarrow> Blob option" where
  \<comment> \<open>the first inline payload among the parts of a candidate, if it has one\<close>
  "first_inline_image c =
     (case List.map_filter inlineData (candidate_parts c) of [] \<Rightarrow> None | b # _ \<Rightarrow> Some b)"

definition present_value :: "string option \<Rightarrow> string option" where
  \<comment> \<open>the text a response carries in a field: present when the field is defined and is not
      the empty string\<close>
  "present_value v = (case v of None \<Rightarrow> None | Some [] \<Rightarrow> None | Some (c # cs) \<Rightarrow> Some (c # cs))"

definition interpret_response :: "GenerateContentResponse \<Rightarrow> interpreter_error + Blob" where
  \<comment> \<open>the four checks of the specification, first match wins\<close>
  "interpret_response response =
     (let cs = (case candidates response of None \<Rightarrow> [] | Some cs \<Rightarrow> cs);
          block = (case promptFeedback response of None \<Rightarrow> None | Some pf \<Rightarrow> blockReason pf);
          block_message =
            (case promptFeedback response of None \<Rightarrow> None | Some pf \<Rightarrow> blockReasonMessage pf);
          finish = (case cs of [] \<Rightarrow> None | c # _ \<Rightarrow> finishReason c);
          produced_text = (case response_text response of None \<Rightarrow> None | Some t \<Rightarrow> Some (trim t))
      in case present_value block of
           Some reason \<Rightarrow> Inl (BlockedRequestError reason (present_value block_message))
         | None \<Rightarrow>
            (case List.map_filter first_inline_image cs of
               b # _ \<Rightarrow> Inr b
             | [] \<Rightarrow>
                (case present_value finish of
                   Some reason \<Rightarrow>
                     if reason \<noteq> ''STOP'' then Inl (AbnormalCompletionError reason)
                     else Inl (NoImageProducedError (present_value produced_text))
                 | None \<Rightarrow> Inl (NoImageProducedError (present_value produced_text)))))"

fun error_message :: "interpreter_error \<Rightarrow> string" where
  \<comment> \<open>the message each kind of failure is thrown with\<close>
  "error_message (BlockedRequestError reason explanation) =
     ''La solicitud fue bloqueada. Raz'' @ [CHR 0xF3] @ ''n: '' @ reason @ ''. ''
       @ (case explanation of None \<Rightarrow> '''' | Some m \<Rightarrow> m)"
| "error_message (AbnormalCompletionError reason) =
     ''La generaci'' @ [CHR 0xF3] @ ''n de im'' @ [CHR 0xE1]
       @ ''genes se detuvo inesperadamente. Raz'' @ [CHR 0xF3] @ ''n: '' @ reason
       @ ''. Esto a menudo se relaciona con la configuraci'' @ [CHR 0xF3] @ ''n de seguridad.''"
| "error_message (NoImageProducedError produced_text) =
     ''El modelo de IA no devolvi'' @ [CHR 0xF3] @ '' una imagen. ''
       @ (case produced_text of
            Some t \<Rightarrow> ''El modelo respondi'' @ [CHR 0xF3] @ '' con texto: '' @ [CHR 0x22] @ t @ [CHR 0x22]
          | None \<Rightarrow> ''Esto puede ocurrir debido a los filtros de seguridad o si la ''
                    @ ''solicitud es demasiado compleja. Por favor, intenta con una ''
                    @ ''imagen diferente.'')"

section \<open>Example sessions\<close>

definition defaultBox :: BoxItem where
  \<comment> \<open>wardrobe.ts\<close>
  "defaultBox =
     \<lparr>box_id = ''cardboard-box'',
      name = ''Caja de Regalo de Cart'' @ [CHR 0xF3] @ ''n'',
      url = ''https://i.imgur.com/8N4R42t.jpeg''\<rparr>"

definition example_logo :: File where
  "example_logo = File ''logo.png''"

definition session_front :: AppState where
  "session_front =
     \<lparr>selectedBox = Some defaultBox, logoFile = Some example_logo,
      generatedImages = [(''Vista Frontal'', ''data:image/png;base64,AAAA'')],
      currentAngleIndex = 0, isLoading = False, loadingMessage = '''', error = None\<rparr>"

definition session_two :: AppState where
  "session_two =
     \<lparr>selectedBox = Some defaultBox, logoFile = Some example_logo,
      generatedImages =
        [(''Vista Frontal'', ''data:image/png;base64,AAAA''),
         (''Vista en '' @ [CHR 0xC1] @ ''ngulo'', ''data:image/png;base64,BBBB'')],
      currentAngleIndex = 1, isLoading = False, loadingMessage = '''',
      error = Some ''No se pudo cambiar la vista''\<rparr>"

definition session_starting :: AppState where
  "session_starting = state_of (handleStart_begin defaultBox example_logo initial_state)"

definition image_response :: GenerateContentResponse where
  "image_response =
     \<lparr>candidates = Some
        [\<lparr>content = None, finishReason = Some ''SAFETY''\<rparr>,
         \<lparr>content = Some \<lparr>parts = Some
            [\<lparr>inlineData = None\<rparr>,
             \<lparr>inlineData = Some \<lparr>mimeType = Some ''image/png'', data = Some ''AAAA''\<rparr>\<rparr>]\<rparr>,
          finishReason = Some ''STOP''\<rparr>],
      promptFeedback = None, response_text = Some ''listo''\<rparr>"

definition session_orphaned :: AppState where
  "session_orphaned =
     \<lparr>selectedBox = None, logoFile = None,
      generatedImages =
        [(''Vista Frontal'', ''data:image/png;base64,AAAA''),
         (''Vista en '' @ [CHR 0xC1] @ ''ngulo'', ''data:image/png;base64,BBBB'')],
      currentAngleIndex = 0, isLoading = False, loadingMessage = '''', error = None\<rparr>"

section \<open>Auxiliary lemmas\<close>

lemmas js_defs =
  truthy_def nullish_def or_else_def to_str_def array_get_def obj_get_def Object_values_def
  Object_keys_def view_key_def ANGLE_INSTRUCTIONS_def Let_def

subsection \<open>Objects\<close>

lemma obj_get_obj_set:
  "obj_get (obj_set k v obj) k' = (if k' = k then Some v else obj_get obj k')"
  by (induction obj) (auto simp: obj_get_def)

lemma set_obj_set: "set (obj_set k v obj) \<subseteq> insert (k, v) (set obj)"
  by (induction obj) (auto split: if_splits)

lemma keys_obj_set: "set (Object_keys (obj_set k v obj)) = insert k (set (Object_keys obj))"
proof (induction obj)
  case Nil
  show ?case by (simp add: Object_keys_def)
next
  case (Cons p obj)
  obtain k' v' where p: "p = (k', v')" by (cases p)
  from Cons.IH have IH: "set (map fst (obj_set k v obj)) = insert k (set (map fst obj))"
    by (simp add: Object_keys_def)
  show ?case
  proof (cases "k' = k")
    case True
    then show ?thesis by (simp add: Object_keys_def p)
  next
    case False
    have "set (map fst ((k', v') # obj_set k v obj)) = insert k' (insert k (set (map fst obj)))"
      using IH by simp
    then show ?thesis using False by (simp add: Object_keys_def p insert_commute)
  qed
qed

lemma distinct_obj_set:
  "distinct (Object_keys obj) \<Longrightarrow> distinct (Object_keys (obj_set k v obj))"
proof (induction obj)
  case Nil
  show ?case by (simp add: Object_keys_def)
next
  case (Cons p obj)
  obtain k' v' where p: "p = (k', v')" by (cases p)
  from Cons.prems have d: "distinct (Object_keys obj)" and n: "k' \<notin> set (Object_keys obj)"
    by (simp_all add: Object_keys_def p)
  show ?case
  proof (cases "k' = k")
    case True
    with Cons.prems show ?thesis by (simp add: Object_keys_def p)
  next
    case False
    have "k' \<notin> set (Object_keys (obj_set k v obj))"
      using n False by (simp add: keys_obj_set)
    with Cons.IH [OF d] False show ?thesis by (simp add: Object_keys_def p)
  qed
qed

lemma first_value:
  "array_get (Object_values obj) 0 = (case obj of [] \<Rightarrow> None | (k, v) # rest \<Rightarrow> Some v)"
  by (auto simp: array_get_def Object_values_def split: list.splits)

subsection \<open>The interpreter's loop\<close>

lemma find_imagePart_eq: "Option.bind (find_imagePart c) inlineData = first_inline_image c"
proof -
  have "Option.bind (List.find (\<lambda>part. inlineData part \<noteq> None) ps) inlineData
        = (case List.map_filter inlineData ps of [] \<Rightarrow> None | b # _ \<Rightarrow> Some b)" for ps :: "Part list"
    by (induction ps) (auto simp: List.map_filter_simps)
  then show ?thesis
    by (simp add: find_imagePart_def first_inline_image_def candidate_parts_def
        List.map_filter_simps split: option.splits)
qed

lemma scan_candidates_eq:
  "scan_candidates cs =
     (case List.map_filter first_inline_image cs of [] \<Rightarrow> None | b # _ \<Rightarrow> Some (data_url b))"
proof (induction cs)
  case Nil
  show ?case by (simp add: List.map_filter_simps)
next
  case (Cons c cs)
  show ?case
  proof (cases "first_inline_image c")
    case None
    then have "Option.bind (find_imagePart c) inlineData = None"
      by (simp add: find_imagePart_eq)
    then show ?thesis using Cons None
      by (auto simp: List.map_filter_simps split: option.splits)
  next
    case (Some b)
    then have "Option.bind (find_imagePart c) inlineData = Some b"
      by (simp add: find_imagePart_eq)
    then show ?thesis using Some
      by (auto simp: List.map_filter_simps split: option.splits)
  qed
qed

lemma first_finish: "Option.bind (Option.bind cso (\<lambda>cs. array_get cs 0)) finishReason
   = (case (case cso of None \<Rightarrow> [] | Some cs \<Rightarrow> cs) of [] \<Rightarrow> None | c # _ \<Rightarrow> finishReason c)"
  by (auto simp: array_get_def split: option.splits list.splits)

lemma handleApiResponse_nonempty: "handleApiResponse response = Inr imageUrl \<Longrightarrow> imageUrl \<noteq> []"
  by (auto simp: handleApiResponse_def Let_def scan_candidates_eq data_url_def
      split: if_splits option.splits list.splits)

lemma generation_result_nonempty: "generation_result reply = Inr imageUrl \<Longrightarrow> imageUrl \<noteq> []"
  by (cases reply) (auto dest: handleApiResponse_nonempty)

lemma error_kinds_distinct:
  "error_message (BlockedRequestError r m) \<noteq> error_message (AbnormalCompletionError r')"
  "error_message (BlockedRequestError r m) \<noteq> error_message (NoImageProducedError t)"
  "error_message (AbnormalCompletionError r') \<noteq> error_message (NoImageProducedError t)"
  by simp_all

subsection \<open>The paths of \<open>handleAngleSelect\<close>\<close>

lemma handleAngleSelect_ignored:
  "isLoading s \<or> newIndex = currentAngleIndex s \<or> selectedBox s = None \<Longrightarrow>
   handleAngleSelect newIndex s = Returned s"
  by (simp add: handleAngleSelect_def)

lemma handleAngleSelect_hit:
  "\<not> isLoading s \<Longrightarrow> newIndex \<noteq> currentAngleIndex s \<Longrightarrow> selectedBox s \<noteq> None \<Longrightarrow>
   truthy (obj_get (generatedImages s) (view_key newIndex)) \<Longrightarrow>
   handleAngleSelect newIndex s = Returned (s\<lparr>currentAngleIndex := newIndex\<rparr>)"
  by (auto simp: handleAngleSelect_def view_key_def)

lemma handleAngleSelect_no_base:
  "\<not> truthy (obj_get (generatedImages s) (view_key newIndex)) \<Longrightarrow>
   \<not> truthy (array_get (Object_values (generatedImages s)) 0) \<Longrightarrow>
   handleAngleSelect newIndex s = Returned s"
  by (auto simp: handleAngleSelect_def view_key_def truthy_def split: option.splits)

lemma handleAngleSelect_miss:
  "\<not> isLoading s \<Longrightarrow> newIndex \<noteq> currentAngleIndex s \<Longrightarrow> selectedBox s \<noteq> None \<Longrightarrow>
   \<not> truthy (obj_get (generatedImages s) (view_key newIndex)) \<Longrightarrow>
   generatedImages s = (k0, v0) # rest \<Longrightarrow> v0 \<noteq> [] \<Longrightarrow>
   handleAngleSelect newIndex s =
     Awaiting
       (s\<lparr>error := None, isLoading := True,
          loadingMessage := ''Cambiando la vista a '' @ [CHR 0x22]
            @ to_str (array_get ANGLE_INSTRUCTIONS newIndex) @ [CHR 0x22] @ ''...'',
          currentAngleIndex := newIndex\<rparr>)
       (GenerateAngleVariation v0 (array_get ANGLE_INSTRUCTIONS newIndex))
       (AngleCont (currentAngleIndex s) (array_get ANGLE_INSTRUCTIONS newIndex))"
  by (auto simp: handleAngleSelect_def view_key_def first_value Let_def)

lemma handleAngleSelect_Awaiting:
  assumes "handleAngleSelect newIndex s = Awaiting s1 req k"
  shows "\<not> isLoading s \<and> newIndex \<noteq> currentAngleIndex s \<and> selectedBox s \<noteq> None
     \<and> \<not> truthy (obj_get (generatedImages s) (view_key newIndex))
     \<and> (\<exists>k0 v0 rest. generatedImages s = (k0, v0) # rest \<and> v0 \<noteq> [])"
  using assms
  by (auto simp: handleAngleSelect_def view_key_def first_value Let_def
      split: if_splits option.splits list.splits)

lemma handleAngleSelect_cache:
  "generatedImages (state_of (handleAngleSelect newIndex s)) = generatedImages s"
  by (auto simp: handleAngleSelect_def Let_def split: option.splits)

subsection \<open>What holds throughout a session\<close>

lemma session_invariant_initial: "session_invariant initial_state"
  by (simp add: session_invariant_def initial_state_def Object_keys_def)

lemma session_invariant_SelectView:
  "session_invariant s \<Longrightarrow> session_invariant (state_of (handleAngleSelect newIndex s))"
  by (auto simp: session_invariant_def handleAngleSelect_def Let_def
      split: option.splits if_splits)

lemma session_invariant_resume:
  assumes "session_invariant s"
  shows "session_invariant (resume g k outcome s)"
proof (cases k)
  case StartCont
  with assms show ?thesis
    by (cases outcome)
      (auto simp: session_invariant_def Object_keys_def split: if_splits)
next
  case (AngleCont p a)
  show ?thesis
  proof (cases outcome)
    case (Inl e)
    with assms AngleCont show ?thesis
      by (auto simp: session_invariant_def split: if_splits)
  next
    case (Inr u)
    have "distinct (Object_keys (obj_set (to_str a) u (generatedImages s)))"
      using assms by (simp add: session_invariant_def distinct_obj_set)
    then show ?thesis using assms Inr AngleCont
      by (auto simp: session_invariant_def split: if_splits)
  qed
qed

lemma session_invariant_apply_event:
  "session_invariant s \<Longrightarrow> session_invariant (apply_event g e s)"
proof (cases e)
  case (Start box logo)
  assume "session_invariant s"
  then show ?thesis
    by (simp add: Start session_invariant_def handleStart_begin_def)
next
  case (SelectView newIndex)
  assume "session_invariant s"
  then show ?thesis by (simp add: SelectView session_invariant_SelectView)
next
  case StartOver
  show ?thesis
    by (simp add: StartOver session_invariant_def handleStartOver_def Object_keys_def)
next
  case (Settled k outcome)
  assume "session_invariant s"
  then show ?thesis by (simp add: Settled session_invariant_resume)
qed

lemma session_invariant_run_events:
  "session_invariant s \<Longrightarrow> session_invariant (run_events g es s)"
  by (induction es arbitrary: s) (simp_all add: session_invariant_apply_event)

lemma images_nonempty_apply_event:
  assumes "images_nonempty s" and "settles_with_image e"
  shows "images_nonempty (apply_event g e s)"
proof (cases e)
  case (Start box logo)
  with assms(1) show ?thesis by (simp add: images_nonempty_def handleStart_begin_def)
next
  case (SelectView newIndex)
  with assms(1) show ?thesis by (simp add: images_nonempty_def handleAngleSelect_cache)
next
  case StartOver
  show ?thesis by (simp add: StartOver images_nonempty_def handleStartOver_def)
next
  case (Settled k outcome)
  show ?thesis
  proof (cases outcome)
    case (Inl err)
    with assms(1) Settled show ?thesis by (cases k) (simp_all add: images_nonempty_def)
  next
    case (Inr u)
    with assms(2) Settled have u: "u \<noteq> []" by simp
    show ?thesis
    proof (cases k)
      case StartCont
      with u Settled Inr show ?thesis by (simp add: images_nonempty_def Let_def)
    next
      case (AngleCont p a)
      have "list_all (\<lambda>(k, v). v \<noteq> []) (obj_set (to_str a) u (generatedImages s))"
        using assms(1) u set_obj_set [of "to_str a" u "generatedImages s"]
        by (auto simp: images_nonempty_def list_all_iff)
      with Settled Inr AngleCont show ?thesis by (simp add: images_nonempty_def)
    qed
  qed
qed

text \<open>
  The cache of a session whose requests settle as the generation client settles them holds
  non-empty images only.
\<close>

lemma images_nonempty_run_events:
  "images_nonempty s \<Longrightarrow> list_all settles_with_image es \<Longrightarrow> images_nonempty (run_events g es s)"
  by (induction es arbitrary: s) (simp_all add: images_nonempty_apply_event)

lemma generation_result_settles_with_image:
  "settles_with_image (Settled k (generation_result reply))"
  by (cases "generation_result reply") (simp_all add: generation_result_nonempty)

lemma session_images_nonempty:
  "list_all settles_with_image es \<Longrightarrow> images_nonempty (run_events g es initial_state)"
  by (rule images_nonempty_run_events) (simp_all add: images_nonempty_def initial_state_def)

lemma overwritten_same_cache: "generatedImages s' = generatedImages s \<Longrightarrow> \<not> overwritten V s s'"
  by (simp add: overwritten_def split: option.splits)

text \<open>
  The example scenario of the specification: a successful start, a successful switch to the
  second view, and a failed switch to the third, which rolls back to the second.
\<close>

lemma example_scenario:
  "handleStart g defaultBox example_logo (Inr ''data:image/png;base64,AAAA'') initial_state
     = session_front"
  "run g (handleAngleSelect 1 session_front) (Inr ''data:image/png;base64,BBBB'')
     = session_two\<lparr>error := None\<rparr>"
  "run (\<lambda>err fallback. fallback) (handleAngleSelect 2 (session_two\<lparr>error := None\<rparr>))
     (Inl (Error ''SAFETY'')) = session_two"
  by (simp_all add: handleStart_def handleStart_begin_def handleAngleSelect_def run_def
      session_front_def session_two_def initial_state_def js_defs)

section \<open>The session controller\<close>

subsection \<open>C1: the single-flight gate\<close>

text \<open>
  C1, single-flight gate. The property: while \<open>isLoading\<close> (pending) is true, any call of
  Start or SelectView is ignored and changes neither the cache, nor the selected view, nor
  the box and logo selection. \<open>handleAngleSelect\<close> tests \<open>isLoading\<close> first and is ignored;
  \<open>handleStart\<close> has no such test. The session evaluated here is a second click on the
  start screen's button, with another logo, while the request of the first click is
  pending: the view switch is ignored, but the second start is not. It replaces the selected
  logo and issues a second request, and when both requests have settled the image of the
  first has been replaced in the cache by the image of the second.
\<close>

theorem start_while_pending_not_ignored:
  "isLoading session_starting
   \<and> logoFile session_starting = Some (File ''logo.png'')
   \<and> handleAngleSelect 1 session_starting = Returned session_starting
   \<and> handleStart_begin defaultBox (File ''otro.png'') session_starting
       = Awaiting (session_starting\<lparr>logoFile := Some (File ''otro.png'')\<rparr>)
           (GenerateLogoOnBoxImage defaultBox (File ''otro.png'')) StartCont
   \<and> generatedImages
       (run_events (\<lambda>err fallback. fallback)
          [Start defaultBox example_logo, Start defaultBox (File ''otro.png''),
           Settled StartCont (Inr ''data:image/png;base64,AAAA'')] initial_state)
       = [(''Vista Frontal'', ''data:image/png;base64,AAAA'')]
   \<and> generatedImages
       (run_events (\<lambda>err fallback. fallback)
          [Start defaultBox example_logo, Start defaultBox (File ''otro.png''),
           Settled StartCont (Inr ''data:image/png;base64,AAAA''),
           Settled StartCont (Inr ''data:image/png;base64,BBBB'')] initial_state)
       = [(''Vista Frontal'', ''data:image/png;base64,BBBB'')]"
  by (simp add: session_starting_def handleStart_begin_def handleAngleSelect_def
      initial_state_def example_logo_def defaultBox_def js_defs)

subsection \<open>C2: rollback of a failed view switch\<close>

text \<open>
  C2, rollback correctness. In a state whose selected view is \<open>A\<close> and whose cache has no
  entry for view \<open>B\<close>, if \<open>handleAngleSelect B\<close> issues a regeneration request and the
  request fails, then afterwards the selected view is \<open>A\<close> again, the cache is exactly as
  before (so still without an entry for \<open>B\<close>), \<open>isLoading\<close> is false and the error is
  recorded.
\<close>

theorem rollback_correctness:
  assumes "currentAngleIndex s = A"
    and "obj_get (generatedImages s) (view_key B) = None"
    and "issued (handleAngleSelect B s) \<noteq> None"
  shows "currentAngleIndex (run g (handleAngleSelect B s) (Inl err)) = A
     \<and> generatedImages (run g (handleAngleSelect B s) (Inl err)) = generatedImages s
     \<and> obj_get (generatedImages (run g (handleAngleSelect B s) (Inl err))) (view_key B) = None
     \<and> \<not> isLoading (run g (handleAngleSelect B s) (Inl err))
     \<and> error (run g (handleAngleSelect B s) (Inl err)) = Some (g err ''No se pudo cambiar la vista'')"
proof -
  from assms(3) obtain s1 req k where aw: "handleAngleSelect B s = Awaiting s1 req k"
    by (cases "handleAngleSelect B s") auto
  from handleAngleSelect_Awaiting [OF aw] obtain k0 v0 rest where
    pre: "\<not> isLoading s" "B \<noteq> currentAngleIndex s" "selectedBox s \<noteq> None"
      "\<not> truthy (obj_get (generatedImages s) (view_key B))"
      "generatedImages s = (k0, v0) # rest" "v0 \<noteq> []"
    by blast
  have "run g (handleAngleSelect B s) (Inl err) =
      s\<lparr>error := Some (g err ''No se pudo cambiar la vista''), isLoading := False,
        loadingMessage := '''', currentAngleIndex := A\<rparr>"
    using assms(1) by (simp add: handleAngleSelect_miss [OF pre] run_def)
  then show ?thesis using assms(1,2) by simp
qed

theorem rollback_correctness_witness:
  "currentAngleIndex session_two = 1
   \<and> obj_get (generatedImages session_two) (view_key 2) = None
   \<and> issued (handleAngleSelect 2 session_two)
       = Some (GenerateAngleVariation ''data:image/png;base64,AAAA'' (Some ''Vista Superior''))
   \<and> run (\<lambda>err fallback. fallback @ '': '' @ message err) (handleAngleSelect 2 session_two)
        (Inl (Error ''SAFETY''))
       = session_two\<lparr>error := Some ''No se pudo cambiar la vista: SAFETY''\<rparr>"
proof -
  have a: "currentAngleIndex session_two = 1" by (simp add: session_two_def)
  have b: "obj_get (generatedImages session_two) (view_key 2) = None"
    by (simp add: session_two_def js_defs)
  have c: "issued (handleAngleSelect 2 session_two)
       = Some (GenerateAngleVariation ''data:image/png;base64,AAAA'' (Some ''Vista Superior''))"
    by (simp add: session_two_def handleAngleSelect_def js_defs)
  then have c': "issued (handleAngleSelect 2 session_two) \<noteq> None" by simp
  have d: "run (\<lambda>err fallback. fallback @ '': '' @ message err) (handleAngleSelect 2 session_two)
        (Inl (Error ''SAFETY''))
       = session_two\<lparr>error := Some ''No se pudo cambiar la vista: SAFETY''\<rparr>"
    by (simp add: session_two_def handleAngleSelect_def run_def js_defs)
  show ?thesis
    using rollback_correctness [OF a b c', of "\<lambda>err fallback. fallback @ '': '' @ message err" "Error ''SAFETY''"]
      a b c d by simp
qed

subsection \<open>C3: a failed start\<close>

text \<open>
  C3, initial failure unwind, as the code has it. After a \<open>handleStart\<close> whose generation
  call fails, no box and no logo are selected, the error is recorded and \<open>isLoading\<close> is
  false; the cache is exactly what it was when \<open>handleStart\<close> was called. \<open>handleStart\<close>
  does not reset the cache (neither before the request nor in the failure branch), so no
  cache entries remain exactly when it was called with an empty cache, as in the initial
  state and after \<open>handleStartOver\<close>.
\<close>

theorem initial_failure_unwind:
  "selectedBox (handleStart g box logo (Inl err) s) = None
   \<and> logoFile (handleStart g box logo (Inl err) s) = None
   \<and> generatedImages (handleStart g box logo (Inl err) s) = generatedImages s
   \<and> generatedImages (state_of (handleStart_begin box logo s)) = generatedImages s
   \<and> error (handleStart g box logo (Inl err) s) = Some (g err ''No se pudo generar la maqueta'')
   \<and> \<not> isLoading (handleStart g box logo (Inl err) s)"
  by (simp add: handleStart_def handleStart_begin_def run_def)

theorem initial_failure_unwind_witness:
  "handleStart (\<lambda>err fallback. fallback) defaultBox example_logo (Inl (Error ''red'')) initial_state
     = initial_state\<lparr>error := Some ''No se pudo generar la maqueta''\<rparr>"
  using initial_failure_unwind [of "\<lambda>err fallback. fallback" defaultBox example_logo "Error ''red''" initial_state]
  by (simp add: handleStart_def handleStart_begin_def run_def initial_state_def)

text \<open>
  As stated for every invocation the property fails: called on the start screen of a
  session whose cache still holds entries, a failing \<open>handleStart\<close> leaves them there.
\<close>

theorem initial_failure_unwind_counterexample:
  "showsStartScreen session_orphaned
   \<and> generatedImages
       (handleStart (\<lambda>err fallback. fallback) defaultBox example_logo (Inl (Error ''red''))
          session_orphaned)
     = [(''Vista Frontal'', ''data:image/png;base64,AAAA''),
        (''Vista en '' @ [CHR 0xC1] @ ''ngulo'', ''data:image/png;base64,BBBB'')]
   \<and> generatedImages
       (handleStart (\<lambda>err fallback. fallback) defaultBox example_logo (Inl (Error ''red''))
          session_orphaned) \<noteq> []"
  by (simp add: handleStart_def handleStart_begin_def run_def session_orphaned_def
      showsStartScreen_def)

section \<open>The provider response interpreter\<close>

subsection \<open>C4: the ordered fallback\<close>

text \<open>
  C4, interpreter ordered fallback. For every provider response, \<open>handleApiResponse\<close>
  behaves as the four ordered checks of the specification: it fails with the
  blocked-request error when a top-level block reason is present; otherwise it returns the
  image payload (as a data URL of its MIME type and data) of the first candidate, in the
  order provided, that contains an inline image; otherwise it fails with the
  abnormal-completion error when the first candidate's finish reason is present and is not
  \<open>STOP\<close>; otherwise it fails with the no-image-produced error, carrying the accompanying
  text (trimmed) if there is any.
\<close>

theorem interpreter_ordered_fallback:
  "handleApiResponse response =
     (case interpret_response response of
        Inl failure \<Rightarrow> Inl (Error (error_message failure))
      | Inr b \<Rightarrow>
          Inr (''data:'' @ (case mimeType b of None \<Rightarrow> ''undefined'' | Some m \<Rightarrow> m)
               @ '';base64,'' @ (case data b of None \<Rightarrow> ''undefined'' | Some d \<Rightarrow> d)))"
proof -
  have present: "case_option g f (present_value v) = (if truthy v then f (to_str v) else g)"
    for g :: 'a and f v
    by (auto simp: present_value_def truthy_def to_str_def split: option.splits list.splits)
  have alternative: "or_else v d = (if truthy v then to_str v else d)" for v d
    by (auto simp: or_else_def truthy_def to_str_def split: option.splits)
  have same: "truthy v \<Longrightarrow> (v = Some x) = (to_str v = x)" for v x
    by (auto simp: truthy_def to_str_def split: option.splits)
  have truthy_None: "\<not> truthy None"
    by (simp add: truthy_def)
  have bound: "Option.bind x f = (case x of None \<Rightarrow> None | Some y \<Rightarrow> f y)"
    for x :: "'b option" and f :: "'b \<Rightarrow> 'c option"
    by (cases x) simp_all
  have trimmed: "(case t of None \<Rightarrow> None | Some x \<Rightarrow> Some (trim x)) = map_option trim t" for t
    by (cases t) simp_all
  have url: "data_url b =
      ''data:'' @ (case mimeType b of None \<Rightarrow> ''undefined'' | Some m \<Rightarrow> m)
        @ '';base64,'' @ (case data b of None \<Rightarrow> ''undefined'' | Some d \<Rightarrow> d)" for b
    by (simp add: data_url_def to_str_def split: option.splits)
  show ?thesis
    unfolding handleApiResponse_def interpret_response_def Let_def scan_candidates_eq
      first_finish
    unfolding bound trimmed
    by (simp add: present alternative same url truthy_None split: list.splits)
qed

theorem interpreter_ordered_fallback_witness:
  "handleApiResponse image_response = Inr ''data:image/png;base64,AAAA''
   \<and> interpret_response image_response
       = Inr \<lparr>mimeType = Some ''image/png'', data = Some ''AAAA''\<rparr>
   \<and> interpret_response (image_response\<lparr>promptFeedback :=
         Some \<lparr>blockReason = Some ''SAFETY'', blockReasonMessage = None\<rparr>\<rparr>)
       = Inl (BlockedRequestError ''SAFETY'' None)
   \<and> interpret_response (image_response\<lparr>candidates :=
         Some [\<lparr>content = None, finishReason = Some ''SAFETY''\<rparr>]\<rparr>)
       = Inl (AbnormalCompletionError ''SAFETY'')
   \<and> interpret_response (image_response\<lparr>candidates := None, response_text := Some '' listo ''\<rparr>)
       = Inl (NoImageProducedError (Some ''listo''))"
  using interpreter_ordered_fallback [of image_response]
  by (simp add: image_response_def interpret_response_def first_inline_image_def
      candidate_parts_def List.map_filter_simps present_value_def trim_def is_white_space_def)

section \<open>View switches\<close>

subsection \<open>C5: the base of a regeneration\<close>

text \<open>
  C5, regeneration base selection. Whenever \<open>handleAngleSelect target\<close> issues a
  regeneration request, the target is a cache miss, the cache is not empty, the request's
  base image is the value of the cache's first-inserted entry (whatever view is selected),
  and in the state in which the provider is awaited the selected view is already the
  target, \<open>isLoading\<close> is true and the cache is untouched. A request is issued for every
  target missing from a cache whose first image is a non-empty string, when no request is
  pending, the target is not the selected view and a box is selected.
\<close>

theorem regeneration_base_selection:
  "(\<forall>s1 req k. handleAngleSelect target s = Awaiting s1 req k \<longrightarrow>
      (\<exists>k0 v0 rest. generatedImages s = (k0, v0) # rest
         \<and> req = GenerateAngleVariation v0 (array_get ANGLE_INSTRUCTIONS target))
      \<and> \<not> truthy (obj_get (generatedImages s) (view_key target))
      \<and> currentAngleIndex s1 = target \<and> isLoading s1
      \<and> generatedImages s1 = generatedImages s)
   \<and> (\<not> isLoading s \<and> target \<noteq> currentAngleIndex s \<and> selectedBox s \<noteq> None
        \<and> obj_get (generatedImages s) (view_key target) = None
        \<and> (\<exists>k0 v0 rest. generatedImages s = (k0, v0) # rest \<and> v0 \<noteq> [])
      \<longrightarrow> issued (handleAngleSelect target s) \<noteq> None)"
proof (intro conjI allI impI)
  fix s1 req k
  assume aw: "handleAngleSelect target s = Awaiting s1 req k"
  from handleAngleSelect_Awaiting [OF aw] obtain k0 v0 rest where
    pre: "\<not> isLoading s" "target \<noteq> currentAngleIndex s" "selectedBox s \<noteq> None"
      "\<not> truthy (obj_get (generatedImages s) (view_key target))"
      "generatedImages s = (k0, v0) # rest" "v0 \<noteq> []"
    by blast
  from aw handleAngleSelect_miss [OF pre]
  have s1: "s1 = s\<lparr>error := None, isLoading := True,
          loadingMessage := ''Cambiando la vista a '' @ [CHR 0x22]
            @ to_str (array_get ANGLE_INSTRUCTIONS target) @ [CHR 0x22] @ ''...'',
          currentAngleIndex := target\<rparr>"
    and req: "req = GenerateAngleVariation v0 (array_get ANGLE_INSTRUCTIONS target)"
    by simp_all
  show "\<exists>k0 v0 rest. generatedImages s = (k0, v0) # rest
         \<and> req = GenerateAngleVariation v0 (array_get ANGLE_INSTRUCTIONS target)"
    using pre(5) req by blast
  show "\<not> truthy (obj_get (generatedImages s) (view_key target))" by (rule pre(4))
  show "currentAngleIndex s1 = target" by (simp add: s1)
  show "isLoading s1" by (simp add: s1)
  show "generatedImages s1 = generatedImages s" by (simp add: s1)
next
  assume a: "\<not> isLoading s \<and> target \<noteq> currentAngleIndex s \<and> selectedBox s \<noteq> None
        \<and> obj_get (generatedImages s) (view_key target) = None
        \<and> (\<exists>k0 v0 rest. generatedImages s = (k0, v0) # rest \<and> v0 \<noteq> [])"
  then obtain k0 v0 rest where c: "generatedImages s = (k0, v0) # rest" "v0 \<noteq> []" by blast
  from a have "\<not> truthy (obj_get (generatedImages s) (view_key target))"
    by (simp add: truthy_def)
  with a c show "issued (handleAngleSelect target s) \<noteq> None"
    by (simp add: handleAngleSelect_miss)
qed

theorem regeneration_base_selection_witness:
  "handleAngleSelect 2 session_two =
     Awaiting
       (session_two\<lparr>error := None, isLoading := True,
          loadingMessage := ''Cambiando la vista a '' @ [CHR 0x22] @ ''Vista Superior'' @ [CHR 0x22] @ ''...'',
          currentAngleIndex := 2\<rparr>)
       (GenerateAngleVariation ''data:image/png;base64,AAAA'' (Some ''Vista Superior''))
       (AngleCont 1 (Some ''Vista Superior''))
   \<and> displayImageUrl session_two = Some ''data:image/png;base64,BBBB''"
  using regeneration_base_selection [of 2 session_two]
  by (simp add: session_two_def handleAngleSelect_def displayImageUrl_def js_defs)

subsection \<open>C6: cache hits\<close>

text \<open>
  C6, cache hit idempotence. For every view \<open>V\<close> already present in the cache,
  \<open>handleAngleSelect V\<close>, called when no request is pending and \<open>V\<close> is not the selected
  view, issues no request, makes \<open>V\<close> the selected view and leaves the cache (and every
  other field) unchanged. The states are those in which the call can happen: the render
  takes the branch of the main view, whose canvas is the only receiver of
  \<open>handleAngleSelect\<close>, and the cache holds generated images, which are never the empty
  string (\<open>session_images_nonempty\<close>).
\<close>

theorem cache_hit_idempotence:
  assumes "\<not> showsStartScreen s" and "images_nonempty s"
    and "\<not> isLoading s" and "V \<noteq> currentAngleIndex s"
    and "obj_get (generatedImages s) (view_key V) \<noteq> None"
  shows "handleAngleSelect V s = Returned (s\<lparr>currentAngleIndex := V\<rparr>)"
proof -
  from assms(5) obtain img where img: "obj_get (generatedImages s) (view_key V) = Some img"
    by blast
  then have "(view_key V, img) \<in> set (generatedImages s)"
    by (simp add: obj_get_def map_of_SomeD)
  with assms(2) have "img \<noteq> []"
    by (auto simp: images_nonempty_def list_all_iff)
  with img have "truthy (obj_get (generatedImages s) (view_key V))"
    by (simp add: truthy_def)
  moreover from assms(1) have "selectedBox s \<noteq> None"
    by (simp add: showsStartScreen_def)
  ultimately show ?thesis
    using assms(3,4) by (simp add: handleAngleSelect_hit)
qed

theorem cache_hit_idempotence_witness:
  "\<not> showsStartScreen session_two \<and> images_nonempty session_two
   \<and> obj_get (generatedImages session_two) (view_key 0) = Some ''data:image/png;base64,AAAA''
   \<and> handleAngleSelect 0 session_two = Returned (session_two\<lparr>currentAngleIndex := 0\<rparr>)"
proof -
  have a: "\<not> showsStartScreen session_two" "images_nonempty session_two"
    "\<not> isLoading session_two" "0 \<noteq> currentAngleIndex session_two"
    by (simp_all add: session_two_def showsStartScreen_def images_nonempty_def)
  have b: "obj_get (generatedImages session_two) (view_key 0) = Some ''data:image/png;base64,AAAA''"
    by (simp add: session_two_def js_defs)
  then have c: "obj_get (generatedImages session_two) (view_key 0) \<noteq> None" by simp
  show ?thesis
    using cache_hit_idempotence [OF a c] a b by simp
qed

subsection \<open>C7: the displayed image\<close>

text \<open>
  C7, displayed-image resolution. In every state \<open>displayImageUrl\<close> is the cache entry of
  the selected view if there is one, else the first cache value in insertion order, else
  the URL of the selected box; so it is defined whenever the cache is not empty or a box is
  selected.
\<close>

theorem displayed_image_resolution:
  "displayImageUrl s =
     (case obj_get (generatedImages s) (view_key (currentAngleIndex s)) of
        Some img \<Rightarrow> Some img
      | None \<Rightarrow>
          (case generatedImages s of
             (k, img) # rest \<Rightarrow> Some img
           | [] \<Rightarrow> (case selectedBox s of None \<Rightarrow> None | Some box \<Rightarrow> Some (url box))))
   \<and> (generatedImages s \<noteq> [] \<or> selectedBox s \<noteq> None \<longrightarrow> displayImageUrl s \<noteq> None)"
  by (auto simp: displayImageUrl_def nullish_def view_key_def first_value
      split: option.splits list.splits)

theorem displayed_image_resolution_witness:
  "displayImageUrl session_two = Some ''data:image/png;base64,BBBB''
   \<and> displayImageUrl (session_two\<lparr>currentAngleIndex := 2\<rparr>) = Some ''data:image/png;base64,AAAA''
   \<and> displayImageUrl session_starting = Some ''https://i.imgur.com/8N4R42t.jpeg''
   \<and> displayImageUrl initial_state = None"
  using displayed_image_resolution [of session_two]
    displayed_image_resolution [of "session_two\<lparr>currentAngleIndex := 2\<rparr>"]
    displayed_image_resolution [of session_starting]
    displayed_image_resolution [of initial_state]
  by (simp add: session_two_def session_starting_def initial_state_def handleStart_begin_def
      defaultBox_def js_defs)

subsection \<open>C8: cache entries are not overwritten\<close>

text \<open>
  C8, no duplicate generation. Over the operations of a session (a start, a view switch, a
  reset, a request settling), the image cached for a view \<open>V\<close> is replaced by another
  image only when a successful regeneration for exactly \<open>V\<close> settles, or when a successful
  start settles, which replaces the whole cache by a single fresh entry for the first view.
  An entry disappears only by a reset or by such a successful start. A view switch to a
  view with a (non-empty) cached image issues no request, so a cached view is not generated
  again.
\<close>

theorem no_duplicate_generation:
  "(overwritten V s (apply_event g e s) \<longrightarrow>
      (\<exists>prevAngleIndex angleInstruction newImageUrl.
          e = Settled (AngleCont prevAngleIndex angleInstruction) (Inr newImageUrl)
          \<and> to_str angleInstruction = V)
      \<or> (\<exists>newImageUrl. e = Settled StartCont (Inr newImageUrl) \<and> V = view_key 0))
   \<and> (removed V s (apply_event g e s) \<longrightarrow>
      e = StartOver \<or> (\<exists>newImageUrl. e = Settled StartCont (Inr newImageUrl) \<and> V \<noteq> view_key 0))
   \<and> generatedImages (apply_event g (Settled StartCont (Inr u)) s) = [(view_key 0, u)]
   \<and> (truthy (obj_get (generatedImages s) (view_key newIndex)) \<longrightarrow>
        issued (handleAngleSelect newIndex s) = None)"
proof (intro conjI impI)
  assume ow: "overwritten V s (apply_event g e s)"
  show "(\<exists>prevAngleIndex angleInstruction newImageUrl.
            e = Settled (AngleCont prevAngleIndex angleInstruction) (Inr newImageUrl)
            \<and> to_str angleInstruction = V)
         \<or> (\<exists>newImageUrl. e = Settled StartCont (Inr newImageUrl) \<and> V = view_key 0)"
  proof (cases e)
    case (Start box logo)
    have "generatedImages (apply_event g e s) = generatedImages s"
      by (simp add: Start handleStart_begin_def)
    with ow show ?thesis by (simp add: overwritten_same_cache)
  next
    case (SelectView newIndex)
    have "generatedImages (apply_event g e s) = generatedImages s"
      by (simp add: SelectView handleAngleSelect_cache)
    with ow show ?thesis by (simp add: overwritten_same_cache)
  next
    case StartOver
    with ow show ?thesis
      by (simp add: overwritten_def handleStartOver_def obj_get_def split: option.splits)
  next
    case (Settled k outcome)
    show ?thesis
    proof (cases outcome)
      case (Inl err)
      have "generatedImages (apply_event g e s) = generatedImages s"
        by (cases k) (simp_all add: Settled Inl)
      with ow show ?thesis by (simp add: overwritten_same_cache)
    next
      case (Inr newImageUrl)
      show ?thesis
      proof (cases k)
        case StartCont
        with ow Settled Inr have "V = view_key 0"
          by (auto simp: overwritten_def obj_get_def view_key_def Let_def
              split: option.splits if_splits)
        with Settled Inr StartCont show ?thesis by simp
      next
        case (AngleCont prevAngleIndex angleInstruction)
        have "to_str angleInstruction = V"
        proof (rule ccontr)
          assume "to_str angleInstruction \<noteq> V"
          then have "obj_get (generatedImages (apply_event g e s)) V = obj_get (generatedImages s) V"
            by (simp add: Settled Inr AngleCont obj_get_obj_set)
          with ow show False by (simp add: overwritten_def split: option.splits)
        qed
        with Settled Inr AngleCont show ?thesis by simp
      qed
    qed
  qed
next
  assume rm: "removed V s (apply_event g e s)"
  show "e = StartOver \<or> (\<exists>newImageUrl. e = Settled StartCont (Inr newImageUrl) \<and> V \<noteq> view_key 0)"
  proof (cases e)
    case (Start box logo)
    with rm show ?thesis by (auto simp: removed_def handleStart_begin_def)
  next
    case (SelectView newIndex)
    with rm show ?thesis by (auto simp: removed_def handleAngleSelect_cache)
  next
    case StartOver
    then show ?thesis by simp
  next
    case (Settled k outcome)
    show ?thesis
    proof (cases outcome)
      case (Inl err)
      have "generatedImages (apply_event g e s) = generatedImages s"
        by (cases k) (simp_all add: Settled Inl)
      with rm show ?thesis by (auto simp: removed_def)
    next
      case (Inr newImageUrl)
      show ?thesis
      proof (cases k)
        case StartCont
        with rm Settled Inr have "V \<noteq> view_key 0"
          by (auto simp: removed_def obj_get_def view_key_def Let_def)
        with Settled Inr StartCont show ?thesis by simp
      next
        case (AngleCont prevAngleIndex angleInstruction)
        with rm Settled Inr show ?thesis
          by (auto simp: removed_def obj_get_obj_set split: if_splits)
      qed
    qed
  qed
next
  show "generatedImages (apply_event g (Settled StartCont (Inr u)) s) = [(view_key 0, u)]"
    by (simp add: view_key_def Let_def)
next
  assume "truthy (obj_get (generatedImages s) (view_key newIndex))"
  then show "issued (handleAngleSelect newIndex s) = None"
    by (simp add: handleAngleSelect_def view_key_def Let_def)
qed

theorem no_duplicate_generation_witness:
  "overwritten ''Vista Frontal'' session_two
     (apply_event (\<lambda>err fallback. fallback)
        (Settled (AngleCont 1 (Some ''Vista Frontal'')) (Inr ''data:image/png;base64,CCCC''))
        session_two)
   \<and> removed (''Vista en '' @ [CHR 0xC1] @ ''ngulo'') session_two
     (apply_event (\<lambda>err fallback. fallback)
        (Settled StartCont (Inr ''data:image/png;base64,CCCC'')) session_two)
   \<and> view_key 0 = ''Vista Frontal''
   \<and> issued (handleAngleSelect 0 session_two) = None"
proof -
  have a: "overwritten ''Vista Frontal'' session_two
     (apply_event (\<lambda>err fallback. fallback)
        (Settled (AngleCont 1 (Some ''Vista Frontal'')) (Inr ''data:image/png;base64,CCCC''))
        session_two)"
    by (simp add: overwritten_def session_two_def js_defs)
  have b: "removed (''Vista en '' @ [CHR 0xC1] @ ''ngulo'') session_two
     (apply_event (\<lambda>err fallback. fallback)
        (Settled StartCont (Inr ''data:image/png;base64,CCCC'')) session_two)"
    by (simp add: removed_def session_two_def js_defs)
  have c: "truthy (obj_get (generatedImages session_two) (view_key 0))"
    by (simp add: session_two_def js_defs)
  have d: "view_key 0 = ''Vista Frontal''" by (simp add: js_defs)
  show ?thesis
    using no_duplicate_generation [of "''Vista Frontal''" session_two "\<lambda>err fallback. fallback"
        "Settled (AngleCont 1 (Some ''Vista Frontal'')) (Inr ''data:image/png;base64,CCCC'')" _ 0]
      no_duplicate_generation [of "''Vista en '' @ [CHR 0xC1] @ ''ngulo''" session_two
        "\<lambda>err fallback. fallback" "Settled StartCont (Inr ''data:image/png;base64,CCCC'')" _ 0]
      a b c d by simp
qed

subsection \<open>C9: a view switch without a usable base\<close>

text \<open>
  C9, implicit no-op. When the target view is not cached and either no box is selected or
  the cache is empty, \<open>handleAngleSelect\<close> returns without issuing a request and without
  changing any field of the state (cache, selected view, \<open>isLoading\<close>, loading message,
  error); no error is raised or recorded.
\<close>

theorem select_view_without_base_is_noop:
  assumes "obj_get (generatedImages s) (view_key target) = None"
    and "selectedBox s = None \<or> generatedImages s = []"
  shows "handleAngleSelect target s = Returned s"
proof (cases "selectedBox s = None")
  case True
  then show ?thesis by (simp add: handleAngleSelect_ignored)
next
  case False
  with assms(2) have "generatedImages s = []" by simp
  then show ?thesis
    using assms(1) by (simp add: handleAngleSelect_no_base truthy_def first_value)
qed

theorem select_view_without_base_is_noop_witness:
  "handleAngleSelect 1 session_starting = Returned session_starting
   \<and> handleAngleSelect 1 initial_state = Returned initial_state"
proof -
  have a: "obj_get (generatedImages session_starting) (view_key 1) = None"
    "selectedBox session_starting = None \<or> generatedImages session_starting = []"
    by (simp_all add: session_starting_def handleStart_begin_def initial_state_def js_defs)
  have b: "obj_get (generatedImages initial_state) (view_key 1) = None"
    "selectedBox initial_state = None \<or> generatedImages initial_state = []"
    by (simp_all add: initial_state_def js_defs)
  show ?thesis
    using select_view_without_base_is_noop [OF a] select_view_without_base_is_noop [OF b]
    by simp
qed

subsection \<open>C10: when the recorded error is cleared\<close>

text \<open>
  C10, error-clearing asymmetry. Every transition that issues a provider request
  (\<open>handleStart\<close>, and \<open>handleAngleSelect\<close> on a miss with a usable base) has set the error
  to null in the state in which the request is awaited, whereas a call of
  \<open>handleAngleSelect\<close> that issues no request, a cache hit in particular, leaves the
  recorded error as it was: a stale message survives cache-hit view switches.
\<close>

theorem error_clearing_asymmetry:
  "error (state_of (handleStart_begin box logo s)) = None
   \<and> issued (handleStart_begin box logo s) \<noteq> None
   \<and> (issued (handleAngleSelect newIndex s) \<noteq> None \<longrightarrow>
        error (state_of (handleAngleSelect newIndex s)) = None)
   \<and> (issued (handleAngleSelect newIndex s) = None \<longrightarrow>
        error (state_of (handleAngleSelect newIndex s)) = error s)
   \<and> (\<not> isLoading s \<and> newIndex \<noteq> currentAngleIndex s \<and> selectedBox s \<noteq> None
        \<and> truthy (obj_get (generatedImages s) (view_key newIndex)) \<longrightarrow>
        issued (handleAngleSelect newIndex s) = None
        \<and> currentAngleIndex (state_of (handleAngleSelect newIndex s)) = newIndex
        \<and> error (state_of (handleAngleSelect newIndex s)) = error s)"
proof (intro conjI impI)
  show "error (state_of (handleStart_begin box logo s)) = None"
    by (simp add: handleStart_begin_def)
  show "issued (handleStart_begin box logo s) \<noteq> None"
    by (simp add: handleStart_begin_def)
next
  assume "issued (handleAngleSelect newIndex s) \<noteq> None"
  then show "error (state_of (handleAngleSelect newIndex s)) = None"
    by (auto simp: handleAngleSelect_def Let_def split: if_splits option.splits)
next
  assume "issued (handleAngleSelect newIndex s) = None"
  then show "error (state_of (handleAngleSelect newIndex s)) = error s"
    by (auto simp: handleAngleSelect_def Let_def split: if_splits option.splits)
next
  assume "\<not> isLoading s \<and> newIndex \<noteq> currentAngleIndex s \<and> selectedBox s \<noteq> None
        \<and> truthy (obj_get (generatedImages s) (view_key newIndex))"
  then have h: "handleAngleSelect newIndex s = Returned (s\<lparr>currentAngleIndex := newIndex\<rparr>)"
    by (simp add: handleAngleSelect_hit)
  show "issued (handleAngleSelect newIndex s) = None" by (simp add: h)
  show "currentAngleIndex (state_of (handleAngleSelect newIndex s)) = newIndex" by (simp add: h)
  show "error (state_of (handleAngleSelect newIndex s)) = error s" by (simp add: h)
qed

theorem error_clearing_asymmetry_witness:
  "error session_two = Some ''No se pudo cambiar la vista''
   \<and> error (state_of (handleAngleSelect 0 session_two)) = Some ''No se pudo cambiar la vista''
   \<and> issued (handleAngleSelect 0 session_two) = None
   \<and> issued (handleAngleSelect 2 session_two) \<noteq> None
   \<and> error (state_of (handleAngleSelect 2 session_two)) = None
   \<and> error (state_of (handleStart_begin defaultBox example_logo session_two)) = None"
proof -
  have hit: "\<not> isLoading session_two \<and> 0 \<noteq> currentAngleIndex session_two
      \<and> selectedBox session_two \<noteq> None
      \<and> truthy (obj_get (generatedImages session_two) (view_key 0))"
    by (simp add: session_two_def js_defs)
  have miss: "issued (handleAngleSelect 2 session_two) \<noteq> None"
    by (simp add: session_two_def handleAngleSelect_def js_defs)
  have e: "error session_two = Some ''No se pudo cambiar la vista''"
    by (simp add: session_two_def)
  show ?thesis
    using error_clearing_asymmetry [of defaultBox example_logo session_two 0]
      error_clearing_asymmetry [of defaultBox example_logo session_two 2] hit miss e
    by simp
qed

end
